theory Spec2Isabelle
  imports Main
begin

section \<open>JavaScript values\<close>

text \<open>
  The values the program handles: parsed JSON bodies, the objects sent to the device,
  and error objects (\<open>JErrorObj name message\<close>). An object is the list of its own
  properties; numbers are the integers the protocol uses (\<open>response_code\<close>, ports).
\<close>

datatype jsval =
    JUndefined
  | JNull
  | JBool bool
  | JNum int
  | JStr string
  | JArr "jsval list"
  | JObj "(string \<times> jsval) list"
  | JErrorObj string string

text \<open>
  The property read \<open>v.k\<close> for a key that no primitive wrapper defines (the program reads
  \<open>response_code\<close> and the result sub-fields only). Reading a property of \<open>undefined\<close> or
  \<open>null\<close> throws a TypeError (\<open>Inl\<close>); a missing property reads as \<open>undefined\<close>.
\<close>

definition TypeError_read :: "string \<Rightarrow> jsval" where
  "TypeError_read k = JErrorObj ''TypeError'' (''Cannot read properties (reading '' @ k @ '')'')"

fun get_field :: "jsval \<Rightarrow> string \<Rightarrow> jsval + jsval" where
  "get_field JUndefined k = Inl (TypeError_read k)"
| "get_field JNull k = Inl (TypeError_read k)"
| "get_field (JObj kvs) k = Inr (case map_of kvs k of None \<Rightarrow> JUndefined | Some v \<Rightarrow> v)"
| "get_field v k = Inr JUndefined"

section \<open>Subsystem clients\<close>

datatype subsystem = System | Zone | Tuner | NetworkUSB | CD | Clock

text \<open>
  What each client's \<open>setup(ip, eventPort)\<close> stores: the two private fields and the
  configuration handed to \<open>axios.create\<close>.
\<close>

record client =
  cl_ip :: string
  cl_eventPort :: int
  cl_baseURL :: string
  cl_timeout :: nat
  cl_headers :: "(string \<times> jsval) list"

fun base_suffix :: "subsystem \<Rightarrow> string" where
  "base_suffix System = ''/system''"
| "base_suffix Zone = ''''"
| "base_suffix Tuner = ''/tuner''"
| "base_suffix NetworkUSB = ''/netusb''"
| "base_suffix CD = ''/cd''"
| "base_suffix Clock = ''/clock''"

definition client_setup :: "subsystem \<Rightarrow> string \<Rightarrow> int \<Rightarrow> client" where
  "client_setup sub ip eventPort =
     \<lparr> cl_ip = ip,
       cl_eventPort = eventPort,
       cl_baseURL = ''http://'' @ ip @ '':80/YamahaExtendedControl/v1'' @ base_suffix sub,
       cl_timeout = 15 * 1000,
       cl_headers = [(''X-AppName'', JStr ''ERDesigns/1.0''), (''X-AppPort'', JNum eventPort)] \<rparr>"

section \<open>Requests, the HTTP client and promise outcomes\<close>

datatype http_verb = GET | POST

datatype payload = NoPayload | QueryParams "(string \<times> jsval) list" | JsonBody jsval

record request =
  rq_baseURL :: string
  rq_headers :: "(string \<times> jsval) list"
  rq_timeout :: nat
  rq_verb :: http_verb
  rq_path :: string
  rq_data :: payload

text \<open>
  The HTTP client is an external collaborator: for a request, its promise either fulfils
  with a response whose \<open>data\<close> is the parsed body, or rejects with an error object
  (timeout, connection refused, DNS failure, ...).
\<close>

datatype axios_result = Fulfilled jsval | Failed jsval

type_synonym network = "request \<Rightarrow> axios_result"

datatype outcome = Resolved jsval | Rejected jsval

section \<open>The envelope decoder\<close>

datatype shape = WholeBody | SubField string

text \<open>
  The \<open>.then(...).catch(...)\<close> chain every endpoint method ends with:
  \<^verbatim>\<open>
  .then((response) => {
    const res = response.data;
    if (res.response_code === 0) { resolve(res); } else { reject(res); }
  })
  .catch((error) => { reject(error); });
  \<close>
  with \<open>resolve(res.<field>)\<close> in seven methods. \<open>catch\<close> is chained after \<open>then\<close>, so it
  also receives what the \<open>then\<close> callback throws.
\<close>

definition envelope :: "shape \<Rightarrow> axios_result \<Rightarrow> outcome" where
  "envelope sh r =
     (case r of
        Failed error \<Rightarrow> Rejected error
      | Fulfilled res \<Rightarrow>
          (case get_field res ''response_code'' of
             Inl thrown \<Rightarrow> Rejected thrown
           | Inr code \<Rightarrow>
               if code = JNum 0 then
                 (case sh of
                    WholeBody \<Rightarrow> Resolved res
                  | SubField f \<Rightarrow>
                      (case get_field res f of
                         Inl thrown \<Rightarrow> Rejected thrown
                       | Inr v \<Rightarrow> Resolved v))
               else Rejected res))"

section \<open>The endpoint methods\<close>

text \<open>
  Every endpoint method of the six clients has the same body: an optional local check,
  one \<open>get\<close> or \<open>post\<close> on the client's axios instance, and the envelope decoder. A row
  of the tables below records, for one method: its class, its name, the verb, whether
  the path starts with the \<open>zone\<close> argument, the fixed part of the path, which arguments
  are sent and how, what is resolved, and the local check.
\<close>

datatype sending = NoData | Query "string list" | Body "string list" | BodyIs string

datatype precheck = NoCheck | NameAtMost nat

datatype endpoint =
  Endpoint (ep_client: subsystem) (ep_name: string) (ep_verb: http_verb) (ep_zoned: bool)
    (ep_route: string) (ep_sends: sending) (ep_shape: shape) (ep_check: precheck)

definition system_endpoints :: "endpoint list" where
  "system_endpoints = [
     Endpoint System ''getDeviceInfo'' GET False ''/getDeviceInfo'' NoData WholeBody NoCheck,
     Endpoint System ''getFeatures'' GET False ''/getFeatures'' NoData WholeBody NoCheck,
     Endpoint System ''getNetworkStatus'' GET False ''/getNetworkStatus'' NoData WholeBody NoCheck,
     Endpoint System ''setWiredLan'' POST False ''/setWiredLan'' (BodyIs ''options'') WholeBody NoCheck,
     Endpoint System ''setWirelessLan'' POST False ''/setWirelessLan'' (BodyIs ''options'') WholeBody NoCheck,
     Endpoint System ''setIPSettings'' POST False ''/setIpSettings'' (BodyIs ''options'') WholeBody NoCheck,
     Endpoint System ''setNetworkName'' POST False ''/setNetworkName'' (Body [''name'']) WholeBody (NameAtMost 32),
     Endpoint System ''setAirPlayPin'' POST False ''/setAirPlayPin'' (Body [''pin'']) WholeBody NoCheck,
     Endpoint System ''getMacAddressFilter'' GET False ''/getMacAddressFilter'' NoData (SubField ''mac_address_filter'') NoCheck,
     Endpoint System ''setMacAddressFilter'' POST False ''/setMacAddressFilter'' (BodyIs ''options'') (SubField ''mac_address_filter'') NoCheck,
     Endpoint System ''getNetworkStandby'' GET False ''/getNetworkStandby'' NoData (SubField ''network_standby'') NoCheck,
     Endpoint System ''setNetworkStandby'' GET False ''/setNetworkStandby'' (Query [''standby'']) (SubField ''network_standby'') NoCheck,
     Endpoint System ''getBluetoothInfo'' GET False ''/getBluetoothInfo'' NoData (SubField ''bluetooth_info'') NoCheck,
     Endpoint System ''setBluetoothStandby'' GET False ''/setBluetoothStandby'' (Query [''standby'']) (SubField ''bluetooth_standby'') NoCheck,
     Endpoint System ''setBluetoothTxSetting'' GET False ''/setBluetoothTxSetting'' (Query [''enable'']) (SubField ''bluetooth_tx_setting'') NoCheck,
     Endpoint System ''getBluetoothDeviceList'' GET False ''/getBluetoothDeviceList'' NoData WholeBody NoCheck,
     Endpoint System ''updateBluetoothDeviceList'' GET False ''/updateBluetoothDeviceList'' NoData WholeBody NoCheck,
     Endpoint System ''connectBluetoothDevice'' GET False ''/connectBluetoothDevice'' (Query [''address'']) WholeBody NoCheck,
     Endpoint System ''disconnectBluetoothDevice'' GET False ''/disconnectBluetoothDevice'' NoData WholeBody NoCheck,
     Endpoint System ''getFuncStatus'' GET False ''/getFuncStatus'' NoData WholeBody NoCheck,
     Endpoint System ''setAutoPowerStandby'' GET False ''/setAutoPowerStandby'' (Query [''enable'']) WholeBody NoCheck,
     Endpoint System ''setIrSensor'' GET False ''/setIrSensor'' (Query [''enable'']) WholeBody NoCheck,
     Endpoint System ''setSpeakerA'' GET False ''/setSpeakerA'' (Query [''enable'']) WholeBody NoCheck,
     Endpoint System ''setSpeakerB'' GET False ''/setSpeakerB'' (Query [''enable'']) WholeBody NoCheck,
     Endpoint System ''setDimmer'' GET False ''/setDimmer'' (Query [''enable'']) WholeBody NoCheck,
     Endpoint System ''setZoneBVolumeSync'' GET False ''/setZoneBVolumeSync'' (Query [''enable'']) WholeBody NoCheck,
     Endpoint System ''setHdmiOut1'' GET False ''/setHdmiOut1'' (Query [''enable'']) WholeBody NoCheck,
     Endpoint System ''setHdmiOut2'' GET False ''/setHdmiOut2'' (Query [''enable'']) WholeBody NoCheck,
     Endpoint System ''getNameText'' GET False ''/getNameText'' (Query [''id'']) WholeBody NoCheck,
     Endpoint System ''setNameText'' POST False ''/setNameText'' (Body [''id'', ''text'']) WholeBody NoCheck,
     Endpoint System ''getLocationInfo'' GET False ''/getLocationInfo'' NoData WholeBody NoCheck,
     Endpoint System ''sendIrCode'' GET False ''/sendIrCode'' (Query [''code'']) WholeBody NoCheck
   ]"

definition zone_endpoints :: "endpoint list" where
  "zone_endpoints = [
     Endpoint Zone ''getStatus'' GET True ''/getStatus'' NoData WholeBody NoCheck,
     Endpoint Zone ''getSoundProgramList'' GET True ''/getSoundProgramList'' NoData WholeBody NoCheck,
     Endpoint Zone ''setPower'' GET True ''/setPower'' (Query [''power'']) WholeBody NoCheck,
     Endpoint Zone ''setSleep'' GET True ''/setSleep'' (Query [''sleep'']) WholeBody NoCheck,
     Endpoint Zone ''setVolume'' GET True ''/setVolume'' (Query [''volume'', ''step'']) WholeBody NoCheck,
     Endpoint Zone ''setMute'' GET True ''/setMute'' (Query [''enable'']) WholeBody NoCheck,
     Endpoint Zone ''setInput'' GET True ''/setInput'' (Query [''input'', ''mode'']) WholeBody NoCheck,
     Endpoint Zone ''setSoundProgram'' GET True ''/setSoundProgram'' (Query [''program'']) WholeBody NoCheck,
     Endpoint Zone ''set3dSurround'' GET True ''/set3dSurround'' (Query [''enable'']) WholeBody NoCheck,
     Endpoint Zone ''setDirect'' GET True ''/setDirect'' (Query [''enable'']) WholeBody NoCheck,
     Endpoint Zone ''setPureDirect'' GET True ''/setPureDirect'' (Query [''enable'']) WholeBody NoCheck,
     Endpoint Zone ''setEnhancer'' GET True ''/setEnhancer'' (Query [''enable'']) WholeBody NoCheck,
     Endpoint Zone ''setToneControl'' GET True ''/setToneControl'' (Query [''mode'', ''bass'', ''treble'']) WholeBody NoCheck,
     Endpoint Zone ''setEqualizer'' GET True ''/setEqualizer'' (Query [''mode'', ''low'', ''mid'', ''high'']) WholeBody NoCheck,
     Endpoint Zone ''setBalance'' GET True ''/setBalance'' (Query [''value'']) WholeBody NoCheck,
     Endpoint Zone ''setDialogueLevel'' GET True ''/setDialogueLevel'' (Query [''value'']) WholeBody NoCheck,
     Endpoint Zone ''setDialogueLift'' GET True ''/setDialogueLift'' (Query [''value'']) WholeBody NoCheck,
     Endpoint Zone ''setClearVoice'' GET True ''/setClearVoice'' (Query [''enable'']) WholeBody NoCheck,
     Endpoint Zone ''setSubwooferVolume'' GET True ''/setSubwooferVolume'' (Query [''volume'']) WholeBody NoCheck,
     Endpoint Zone ''setBassExtension'' GET True ''/setBassExtension'' (Query [''enable'']) WholeBody NoCheck,
     Endpoint Zone ''getSignalInfo'' GET True ''/getSignalInfo'' NoData WholeBody NoCheck,
     Endpoint Zone ''prepareInputChange'' GET True ''/prepareInputChange'' (Query [''input'']) WholeBody NoCheck
   ]"

definition tuner_endpoints :: "endpoint list" where
  "tuner_endpoints = [
     Endpoint Tuner ''getPresetInfo'' GET False ''/getPresetInfo'' (Query [''band'']) WholeBody NoCheck,
     Endpoint Tuner ''getPlayInfo'' GET False ''/getPlayInfo'' NoData WholeBody NoCheck,
     Endpoint Tuner ''setBand'' GET False ''/setBand'' (Query [''band'']) WholeBody NoCheck,
     Endpoint Tuner ''setFreq'' GET False ''/setFreq'' (Query [''band'', ''tuning'', ''num'']) WholeBody NoCheck,
     Endpoint Tuner ''recallPreset'' GET False ''/recallPreset'' (Query [''zone'', ''band'', ''num'']) WholeBody NoCheck,
     Endpoint Tuner ''switchPreset'' GET False ''/switchPreset'' (Query [''dir'']) WholeBody NoCheck,
     Endpoint Tuner ''storePreset'' GET False ''/storePreset'' (Query [''num'']) WholeBody NoCheck,
     Endpoint Tuner ''clearPreset'' GET False ''/clearPreset'' (Query [''band'', ''num'']) WholeBody NoCheck,
     Endpoint Tuner ''startAutoPreset'' GET False ''/startAutoPreset'' (Query [''band'']) WholeBody NoCheck,
     Endpoint Tuner ''cancelAutoPreset'' GET False ''/cancelAutoPreset'' (Query [''band'']) WholeBody NoCheck,
     Endpoint Tuner ''movePreset'' GET False ''/movePreset'' (Query [''band'', ''from'', ''to'']) WholeBody NoCheck,
     Endpoint Tuner ''startDabInitialScan'' GET False ''/startDabInitialScan'' NoData WholeBody NoCheck,
     Endpoint Tuner ''cancelDabInitialScan'' GET False ''/cancelDabInitialScan'' NoData WholeBody NoCheck,
     Endpoint Tuner ''setDabTuneAid'' GET False ''/setDabTuneAid'' (Query [''action'']) WholeBody NoCheck,
     Endpoint Tuner ''setDabService'' GET False ''/setDabService'' (Query [''dir'']) WholeBody NoCheck
   ]"

definition netusb_endpoints :: "endpoint list" where
  "netusb_endpoints = [
     Endpoint NetworkUSB ''getPresetInfo'' GET False ''/getPresetInfo'' NoData WholeBody NoCheck,
     Endpoint NetworkUSB ''getPlayInfo'' GET False ''/getPlayInfo'' NoData WholeBody NoCheck,
     Endpoint NetworkUSB ''setPlayback'' GET False ''/setPlayback'' (Query [''playback'']) WholeBody NoCheck,
     Endpoint NetworkUSB ''setPlayPosition'' GET False ''/setPlayPosition'' (Query [''position'']) WholeBody NoCheck,
     Endpoint NetworkUSB ''toggleRepeat'' GET False ''/toggleRepeat'' NoData WholeBody NoCheck,
     Endpoint NetworkUSB ''toggleShuffle'' GET False ''/toggleShuffle'' NoData WholeBody NoCheck,
     Endpoint NetworkUSB ''getListInfo'' GET False ''/getListInfo'' (Query [''list_id'', ''input'', ''index'', ''size'', ''lang'']) WholeBody NoCheck,
     Endpoint NetworkUSB ''setListControl'' GET False ''/setListControl'' (Query [''list_id'', ''type'', ''index'', ''zone'']) WholeBody NoCheck,
     Endpoint NetworkUSB ''setSearchString'' GET False ''/setSearchString'' (Query [''list_id'', ''string'', ''index'']) WholeBody NoCheck,
     Endpoint NetworkUSB ''recallPreset'' GET False ''/recallPreset'' (Query [''zone'', ''num'']) WholeBody NoCheck,
     Endpoint NetworkUSB ''storePreset'' GET False ''/storePreset'' (Query [''num'']) WholeBody NoCheck,
     Endpoint NetworkUSB ''clearPreset'' GET False ''/clearPreset'' (Query [''num'']) WholeBody NoCheck,
     Endpoint NetworkUSB ''movePreset'' GET False ''/movePreset'' (Query [''from'', ''to'']) WholeBody NoCheck,
     Endpoint NetworkUSB ''getSettings'' GET False ''/getSettings'' NoData WholeBody NoCheck,
     Endpoint NetworkUSB ''setQuality'' GET False ''/setQuality'' (Query [''input'', ''value'']) WholeBody NoCheck,
     Endpoint NetworkUSB ''getRecentInfo'' GET False ''/getRecentInfo'' NoData WholeBody NoCheck,
     Endpoint NetworkUSB ''recallRecentItem'' GET False ''/recallRecentItem'' (Query [''zone'', ''num'']) WholeBody NoCheck,
     Endpoint NetworkUSB ''clearRecentInfo'' GET False ''/clearRecentInfo'' NoData WholeBody NoCheck,
     Endpoint NetworkUSB ''managePlay'' GET False ''/managePlay'' (Query [''type'', ''timeout'']) WholeBody NoCheck,
     Endpoint NetworkUSB ''manageList'' GET False ''/manageList'' (Query [''list_id'', ''type'', ''index'', ''zone'', ''timeout'']) WholeBody NoCheck,
     Endpoint NetworkUSB ''getPlayDescription'' GET False ''/getPlayDescription'' (Query [''type'', ''timeout'']) WholeBody NoCheck,
     Endpoint NetworkUSB ''setListSortOption'' GET False ''/setListSortOption'' (Query [''input'', ''type'']) WholeBody NoCheck,
     Endpoint NetworkUSB ''getAccountStatus'' GET False ''/getAccountStatus'' NoData WholeBody NoCheck,
     Endpoint NetworkUSB ''switchAccount'' GET False ''/switchAccount'' (Query [''input'', ''index'', ''timeout'']) WholeBody NoCheck,
     Endpoint NetworkUSB ''getServiceInfo'' GET False ''/getServiceInfo'' (Query [''input'', ''type'', ''timeout'']) WholeBody NoCheck
   ]"

definition cd_endpoints :: "endpoint list" where
  "cd_endpoints = [
     Endpoint CD ''getPlayInfo'' GET False ''/getPlayInfo'' NoData WholeBody NoCheck,
     Endpoint CD ''setPlayback'' GET False ''/setPlayback'' (Query [''playback'', ''num'']) WholeBody NoCheck,
     Endpoint CD ''toggleTray'' GET False ''/toggleTray'' NoData WholeBody NoCheck,
     Endpoint CD ''toggleRepeat'' GET False ''/toggleRepeat'' NoData WholeBody NoCheck,
     Endpoint CD ''toggleShuffle'' GET False ''/toggleShuffle'' NoData WholeBody NoCheck
   ]"

definition clock_endpoints :: "endpoint list" where
  "clock_endpoints = [
     Endpoint Clock ''getSettings'' GET False ''/getSettings'' NoData WholeBody NoCheck,
     Endpoint Clock ''setAutoSync'' GET False ''/setAutoSync'' (Query [''enable'']) WholeBody NoCheck,
     Endpoint Clock ''setDateAndTime'' GET False ''/setDateAndTime'' (Query [''date_time'']) WholeBody NoCheck,
     Endpoint Clock ''setClockFormat'' GET False ''/setClockFormat'' (Query [''format'']) WholeBody NoCheck,
     Endpoint Clock ''setAlarmSettings'' POST False ''/setAlarmSettings'' (Body [''alarm_on'', ''volume'', ''fade_interval'', ''fade_type'', ''mode'', ''repeat'', ''detail'']) WholeBody NoCheck
   ]"

definition endpoints :: "endpoint list" where
  "endpoints = system_endpoints @ zone_endpoints @ tuner_endpoints @ netusb_endpoints
     @ cd_endpoints @ clock_endpoints"

text \<open>
  The arguments of one call. \<open>zone\<close> and \<open>name\<close> are strings, as the methods document
  them (a string is the list of its code units, so its \<open>length\<close> is the \<open>.length\<close> the
  local check reads); every other argument is looked up by its parameter name, and an
  argument that was not passed is \<open>undefined\<close>. (Parameter defaults are applied by the
  language before a method body runs and are not part of this model.)
\<close>

record call =
  a_zone :: string
  a_name :: string
  a_others :: "(string \<times> jsval) list"

definition arg_value :: "call \<Rightarrow> string \<Rightarrow> jsval" where
  "arg_value a p =
     (if p = ''zone'' then JStr (a_zone a)
      else if p = ''name'' then JStr (a_name a)
      else (case map_of (a_others a) p of None \<Rightarrow> JUndefined | Some v \<Rightarrow> v))"

definition build_data :: "sending \<Rightarrow> call \<Rightarrow> payload" where
  "build_data s a =
     (case s of
        NoData \<Rightarrow> NoPayload
      | Query ps \<Rightarrow> QueryParams (map (\<lambda>p. (p, arg_value a p)) ps)
      | Body ps \<Rightarrow> JsonBody (JObj (map (\<lambda>p. (p, arg_value a p)) ps))
      | BodyIs p \<Rightarrow> JsonBody (arg_value a p))"

definition build_path :: "endpoint \<Rightarrow> call \<Rightarrow> string" where
  "build_path ep a = (if ep_zoned ep then a_zone a @ ep_route ep else ep_route ep)"

text \<open>
  \<open>perform\<close> is the part every method shares: one request on the client's axios instance
  (which carries the base URL, the timeout and the two headers), then the envelope
  decoder. The result is the list of requests issued and the outcome of the promise.
\<close>

definition perform ::
  "client \<Rightarrow> http_verb \<Rightarrow> string \<Rightarrow> payload \<Rightarrow> shape \<Rightarrow> network \<Rightarrow> request list \<times> outcome" where
  "perform c verb path d sh net =
     (let rq = \<lparr> rq_baseURL = cl_baseURL c, rq_headers = cl_headers c,
                  rq_timeout = cl_timeout c, rq_verb = verb, rq_path = path, rq_data = d \<rparr>
      in ([rq], envelope sh (net rq)))"

definition name_too_long :: jsval where
  "name_too_long =
     JErrorObj ''Error'' ''The network name must not be longer than 32 characters.''"

definition local_check :: "precheck \<Rightarrow> call \<Rightarrow> jsval option" where
  "local_check ck a =
     (case ck of
        NoCheck \<Rightarrow> None
      | NameAtMost n \<Rightarrow> if length (a_name a) > n then Some name_too_long else None)"

definition invoke :: "client \<Rightarrow> endpoint \<Rightarrow> call \<Rightarrow> network \<Rightarrow> request list \<times> outcome" where
  "invoke c ep a net =
     (case local_check (ep_check ep) a of
        Some err \<Rightarrow> ([], Rejected err)
      | None \<Rightarrow>
          perform c (ep_verb ep) (build_path ep a) (build_data (ep_sends ep) a)
            (ep_shape ep) net)"

text \<open>The methods the claims name, written out from their own source text.\<close>

definition getDeviceInfo :: "client \<Rightarrow> network \<Rightarrow> request list \<times> outcome" where
  "getDeviceInfo c net = perform c GET ''/getDeviceInfo'' NoPayload WholeBody net"

definition setNetworkName :: "client \<Rightarrow> string \<Rightarrow> network \<Rightarrow> request list \<times> outcome" where
  "setNetworkName c name net =
     (if length name > 32 then ([], Rejected name_too_long)
      else perform c POST ''/setNetworkName'' (JsonBody (JObj [(''name'', JStr name)]))
             WholeBody net)"

definition getMacAddressFilter :: "client \<Rightarrow> network \<Rightarrow> request list \<times> outcome" where
  "getMacAddressFilter c net =
     perform c GET ''/getMacAddressFilter'' NoPayload (SubField ''mac_address_filter'') net"

definition getNetworkStandby :: "client \<Rightarrow> network \<Rightarrow> request list \<times> outcome" where
  "getNetworkStandby c net =
     perform c GET ''/getNetworkStandby'' NoPayload (SubField ''network_standby'') net"

definition getStatus :: "client \<Rightarrow> string \<Rightarrow> network \<Rightarrow> request list \<times> outcome" where
  "getStatus c zone net = perform c GET (zone @ ''/getStatus'') NoPayload WholeBody net"

section \<open>The platform: datagram sockets\<close>

text \<open>
  The Facade holds one \<open>dgram\<close> socket at a time in \<open>#server\<close>, and socket objects
  outlive the reference to them, so sockets live in a store and are named by their
  index. The store, the log of socket calls, the Facade's own subscribers and the events
  it has emitted are kept next to the Facade's private fields.
\<close>

datatype completion = Normal | Throw jsval

datatype sock_state = Unbound | Binding | Bound | Closed

datatype handler = ErrorHandler | MessageHandler | ListeningHandler

record socket =
  s_state :: sock_state
  s_port :: "int option"
  s_address :: jsval
  s_on :: "(string \<times> handler) list"

datatype sock_call =
  CreateSocket string | On nat string | Bind nat int | Close nat | Address nat

text \<open>
  A listener subscribed to the Facade is code of the embedding application. What it can
  do to the Facade is call its methods, assign its two properties, or throw; a listener
  is the list of such steps it takes, in order, for the arguments it is called with.
  (Listeners that emit events themselves or change the subscriptions are outside this
  model.)
\<close>

datatype action =
    CallSetupEventReceiver int
  | CallSetup string int
  | AssignIp string
  | AssignEventPort int
  | ThrowValue jsval

type_synonym listener = "jsval list \<Rightarrow> action list"

record facade =
  f_ip :: "string option"
  f_eventPort :: "int option"
  f_server :: "nat option"
  f_system :: "client option"
  f_zone :: "client option"
  f_tuner :: "client option"
  f_netusb :: "client option"
  f_cd :: "client option"
  f_clock :: "client option"
  sockets :: "socket list"
  calls :: "sock_call list"
  subscribers :: "(string \<times> listener) list"
  emitted :: "(string \<times> jsval list) list"

text \<open>Sequencing of statements: a throw skips what follows.\<close>

definition andThen ::
  "completion \<times> facade \<Rightarrow> (facade \<Rightarrow> completion \<times> facade) \<Rightarrow> completion \<times> facade" where
  "andThen r k = (case r of (Throw e, w) \<Rightarrow> (Throw e, w) | (Normal, w) \<Rightarrow> k w)"

definition ERR_SOCKET_DGRAM_NOT_RUNNING :: jsval where
  "ERR_SOCKET_DGRAM_NOT_RUNNING = JErrorObj ''Error'' ''Not running''"

definition ERR_SOCKET_ALREADY_BOUND :: jsval where
  "ERR_SOCKET_ALREADY_BOUND = JErrorObj ''Error'' ''Socket is already bound''"

definition EBADF :: jsval where
  "EBADF = JErrorObj ''Error'' ''getsockname EBADF''"

definition update_socket :: "nat \<Rightarrow> (socket \<Rightarrow> socket) \<Rightarrow> facade \<Rightarrow> facade" where
  "update_socket i f w = w\<lparr>sockets := (sockets w)[i := f (sockets w ! i)]\<rparr>"

text \<open>
  Node's \<open>dgram\<close> API as the program uses it. \<open>createSocket\<close> returns a new unbound
  socket; \<open>on\<close> appends a listener; \<open>close\<close> throws on a socket that is already closed
  and closes any other; \<open>bind\<close> starts binding an unbound socket (its success or failure
  arrives later as a \<open>listening\<close> or \<open>error\<close> event); \<open>address\<close> throws unless the
  socket is bound.
\<close>

definition dgram_createSocket :: "string \<Rightarrow> facade \<Rightarrow> nat \<times> facade" where
  "dgram_createSocket ty w =
     (length (sockets w),
      w\<lparr>sockets := sockets w @
            [\<lparr>s_state = Unbound, s_port = None, s_address = JUndefined, s_on = []\<rparr>],
        calls := calls w @ [CreateSocket ty]\<rparr>)"

definition socket_on :: "nat \<Rightarrow> string \<Rightarrow> handler \<Rightarrow> facade \<Rightarrow> facade" where
  "socket_on i ev h w =
     update_socket i (\<lambda>s. s\<lparr>s_on := s_on s @ [(ev, h)]\<rparr>) (w\<lparr>calls := calls w @ [On i ev]\<rparr>)"

definition socket_close :: "nat \<Rightarrow> facade \<Rightarrow> completion \<times> facade" where
  "socket_close i w =
     (let w1 = w\<lparr>calls := calls w @ [Close i]\<rparr> in
      if s_state (sockets w ! i) = Closed then (Throw ERR_SOCKET_DGRAM_NOT_RUNNING, w1)
      else (Normal, update_socket i (\<lambda>s. s\<lparr>s_state := Closed\<rparr>) w1))"

definition socket_bind :: "nat \<Rightarrow> int \<Rightarrow> facade \<Rightarrow> completion \<times> facade" where
  "socket_bind i port w =
     (let w1 = w\<lparr>calls := calls w @ [Bind i port]\<rparr> in
      case s_state (sockets w ! i) of
        Closed \<Rightarrow> (Throw ERR_SOCKET_DGRAM_NOT_RUNNING, w1)
      | Unbound \<Rightarrow>
          (Normal, update_socket i (\<lambda>s. s\<lparr>s_state := Binding, s_port := Some port\<rparr>) w1)
      | Binding \<Rightarrow> (Throw ERR_SOCKET_ALREADY_BOUND, w1)
      | Bound \<Rightarrow> (Throw ERR_SOCKET_ALREADY_BOUND, w1))"

definition socket_address :: "nat \<Rightarrow> facade \<Rightarrow> (jsval + jsval) \<times> facade" where
  "socket_address i w =
     (let w1 = w\<lparr>calls := calls w @ [Address i]\<rparr> in
      case s_state (sockets w ! i) of
        Bound \<Rightarrow> (Inr (s_address (sockets w ! i)), w1)
      | Closed \<Rightarrow> (Inl ERR_SOCKET_DGRAM_NOT_RUNNING, w1)
      | Unbound \<Rightarrow> (Inl EBADF, w1)
      | Binding \<Rightarrow> (Inl EBADF, w1))"

text \<open>
  The two built-ins the message handler calls, taken as parameters: \<open>Buffer.toString\<close>
  (UTF-8 decoding of the datagram's bytes) and \<open>JSON.parse\<close>, which returns the parsed
  value or throws a SyntaxError (\<open>Inl\<close>).
\<close>

record runtime =
  buffer_toString :: "string \<Rightarrow> string"
  json_parse :: "string \<Rightarrow> jsval + jsval"

section \<open>The Facade\<close>

text \<open>
  \<open>setupEventReceiver(eventPort)\<close>: when \<open>#server\<close> is set, \<open>close()\<close> is called on it and
  the field is set to \<open>null\<close> (there is no \<open>try\<close> around the call, so a throw of \<open>close\<close>
  leaves the method there); then the new socket is created and stored, the three
  listeners are registered and \<open>bind(eventPort)\<close> is called.
\<close>

definition setupEventReceiver :: "int \<Rightarrow> facade \<Rightarrow> completion \<times> facade" where
  "setupEventReceiver eventPort w =
     andThen
       (case f_server w of
          None \<Rightarrow> (Normal, w)
        | Some old \<Rightarrow> andThen (socket_close old w) (\<lambda>w1. (Normal, w1\<lparr>f_server := None\<rparr>)))
       (\<lambda>w1. let (i, w2) = dgram_createSocket ''udp4'' w1;
                 w3 = w2\<lparr>f_server := Some i\<rparr>;
                 w4 = socket_on i ''error'' ErrorHandler w3;
                 w5 = socket_on i ''message'' MessageHandler w4;
                 w6 = socket_on i ''listening'' ListeningHandler w5
             in socket_bind i eventPort w6)"

text \<open>
  \<open>setup(ip, eventPort)\<close> of the Facade: it stores both arguments, sets up the event
  receiver, and builds the six clients from the two stored fields (which hold the
  arguments at that point).
\<close>

definition facade_setup :: "string \<Rightarrow> int \<Rightarrow> facade \<Rightarrow> completion \<times> facade" where
  "facade_setup ip eventPort w =
     andThen (setupEventReceiver eventPort (w\<lparr>f_ip := Some ip, f_eventPort := Some eventPort\<rparr>))
       (\<lambda>w1. (Normal,
          w1\<lparr>f_system := Some (client_setup System ip eventPort),
             f_zone := Some (client_setup Zone ip eventPort),
             f_tuner := Some (client_setup Tuner ip eventPort),
             f_netusb := Some (client_setup NetworkUSB ip eventPort),
             f_cd := Some (client_setup CD ip eventPort),
             f_clock := Some (client_setup Clock ip eventPort)\<rparr>))"

text \<open>
  \<^verbatim>\<open>
  class YamahaMusicCast extends EventEmitter {
    constructor(ipAddress, eventPort = 50001) { this.setup(ipAddress, eventPort); }
  \<close>
  The parameter default is bound first. In the constructor of a class with an
  \<open>extends\<close> clause, \<open>this\<close> is uninitialised until \<open>super(...)\<close> has returned, and reading
  it before that throws a ReferenceError.
\<close>

datatype this_binding = ThisUninitialized | ThisObject facade

definition this_before_super :: jsval where
  "this_before_super =
     JErrorObj ''ReferenceError'' ''Must call super constructor in derived class before accessing this''"

definition constructor_body :: "this_binding \<Rightarrow> string \<Rightarrow> int option \<Rightarrow> jsval + facade" where
  "constructor_body this ipAddress eventPort =
     (let port = (case eventPort of None \<Rightarrow> 50001 | Some p \<Rightarrow> p) in
      case this of
        ThisUninitialized \<Rightarrow> Inl this_before_super
      | ThisObject w \<Rightarrow>
          (case facade_setup ipAddress port w of
             (Throw e, w1) \<Rightarrow> Inl e
           | (Normal, w1) \<Rightarrow> Inr w1))"

text \<open>
  \<open>new YamahaMusicCast(ipAddress, eventPort)\<close>: the constructor body as written contains no
  \<open>super(...)\<close> call, so it runs with \<open>this\<close> uninitialised.
\<close>

definition new_YamahaMusicCast :: "string \<Rightarrow> int option \<Rightarrow> jsval + facade" where
  "new_YamahaMusicCast ipAddress eventPort = constructor_body ThisUninitialized ipAddress eventPort"

text \<open>
  The names the module binds before the class declaration of the Facade is evaluated
  (its two \<open>require\<close> lines and the six client classes), and the evaluation of the
  \<open>extends EventEmitter\<close> clause against them and the host's globals.
\<close>

definition module_bindings :: "string list" where
  "module_bindings = [''axios'', ''dgram'', ''YamahaMusicCastSystem'', ''YamahaMusicCastZone'',
     ''YamahaMusicCastTuner'', ''YamahaMusicCastNetworkUSB'', ''YamahaMusicCastCD'',
     ''YamahaMusicCastClock'']"

definition evaluate_heritage :: "string list \<Rightarrow> jsval + unit" where
  "evaluate_heritage globals =
     (if ''EventEmitter'' \<in> set (module_bindings @ globals) then Inr ()
      else Inl (JErrorObj ''ReferenceError'' ''EventEmitter is not defined''))"

text \<open>The accessors of the Facade.\<close>

definition get_ip :: "facade \<Rightarrow> string option" where
  "get_ip w = f_ip w"

definition set_ip :: "string \<Rightarrow> facade \<Rightarrow> facade" where
  "set_ip ip w = w\<lparr>f_ip := Some ip\<rparr>"

definition get_eventPort :: "facade \<Rightarrow> int option" where
  "get_eventPort w = f_eventPort w"

definition set_eventPort :: "int \<Rightarrow> facade \<Rightarrow> facade" where
  "set_eventPort eventPort w = w\<lparr>f_eventPort := Some eventPort\<rparr>"

definition get_client :: "subsystem \<Rightarrow> facade \<Rightarrow> client option" where
  "get_client sub w =
     (case sub of System \<Rightarrow> f_system w | Zone \<Rightarrow> f_zone w | Tuner \<Rightarrow> f_tuner w
      | NetworkUSB \<Rightarrow> f_netusb w | CD \<Rightarrow> f_cd w | Clock \<Rightarrow> f_clock w)"

section \<open>The Facade as an event emitter\<close>

text \<open>
  \<open>emit\<close> of the event emitter the Facade extends. It calls the listeners subscribed
  under the event's name, synchronously and in subscription order, each with the
  event's arguments; what a listener throws leaves \<open>emit\<close> at once, and the listeners
  after it are not called. An \<open>error\<close> event with no listener is thrown instead (the
  argument is the Error object itself). \<open>emitted\<close> logs every event that reached the
  listeners.
\<close>

definition run_action :: "action \<Rightarrow> facade \<Rightarrow> completion \<times> facade" where
  "run_action a w =
     (case a of
        CallSetupEventReceiver port \<Rightarrow> setupEventReceiver port w
      | CallSetup ip port \<Rightarrow> facade_setup ip port w
      | AssignIp ip \<Rightarrow> (Normal, set_ip ip w)
      | AssignEventPort port \<Rightarrow> (Normal, set_eventPort port w)
      | ThrowValue v \<Rightarrow> (Throw v, w))"

fun run_actions :: "action list \<Rightarrow> facade \<Rightarrow> completion \<times> facade" where
  "run_actions [] w = (Normal, w)"
| "run_actions (a # as) w = andThen (run_action a w) (run_actions as)"

fun call_listeners :: "action list list \<Rightarrow> facade \<Rightarrow> completion \<times> facade" where
  "call_listeners [] w = (Normal, w)"
| "call_listeners (l # ls) w = andThen (run_actions l w) (call_listeners ls)"

definition listeners_of :: "string \<Rightarrow> facade \<Rightarrow> listener list" where
  "listeners_of ev w = map snd (filter (\<lambda>l. fst l = ev) (subscribers w))"

definition emit :: "string \<Rightarrow> jsval list \<Rightarrow> facade \<Rightarrow> completion \<times> facade" where
  "emit ev args w =
     (if ev = ''error'' \<and> listeners_of ev w = []
      then (Throw (case args of [] \<Rightarrow> JUndefined | e # _ \<Rightarrow> e), w)
      else call_listeners (map (\<lambda>l. l args) (listeners_of ev w))
             (w\<lparr>emitted := emitted w @ [(ev, args)]\<rparr>))"

text \<open>
  The three listeners \<open>setupEventReceiver\<close> registers on the socket:
  \<^verbatim>\<open>
  this.#server.on('error', (error) => { this.emit('error', error); this.#server.close(); });
  this.#server.on('message', (msg, rinfo) => {
    const json = JSON.parse(msg.toString());
    this.emit('message', rinfo, json);
  });
  this.#server.on('listening', () => {
    const address = this.#server.address();
    this.emit('listening', address);
  });
  \<close>
  \<open>this.#server\<close> is read when the statement runs: in the error handler, after \<open>emit\<close> has
  returned.
\<close>

definition on_error :: "jsval \<Rightarrow> facade \<Rightarrow> completion \<times> facade" where
  "on_error error w =
     andThen (emit ''error'' [error] w)
       (\<lambda>w1. case f_server w1 of
                None \<Rightarrow> (Throw (TypeError_read ''close''), w1)
              | Some i \<Rightarrow> socket_close i w1)"

definition on_message :: "runtime \<Rightarrow> string \<Rightarrow> jsval \<Rightarrow> facade \<Rightarrow> completion \<times> facade" where
  "on_message rt msg rinfo w =
     (case json_parse rt (buffer_toString rt msg) of
        Inl thrown \<Rightarrow> (Throw thrown, w)
      | Inr json \<Rightarrow> emit ''message'' [rinfo, json] w)"

definition on_listening :: "facade \<Rightarrow> completion \<times> facade" where
  "on_listening w =
     (case f_server w of
        None \<Rightarrow> (Throw (TypeError_read ''address''), w)
      | Some i \<Rightarrow>
          (case socket_address i w of
             (Inl thrown, w1) \<Rightarrow> (Throw thrown, w1)
           | (Inr address, w1) \<Rightarrow> emit ''listening'' [address] w1))"

section \<open>Events delivered by the platform\<close>

text \<open>
  What Node does to a socket from outside the program: binding succeeds (the socket
  becomes bound and \<open>listening\<close> fires), a fault occurs (a failed bind leaves the socket
  unbound; \<open>error\<close> fires), or a datagram arrives on a bound socket (\<open>message\<close> fires). The
  listeners registered under the event's name run in order; a closed socket gets no
  events.
\<close>

datatype sock_event = Listening jsval | Fault jsval | Datagram string jsval

fun event_name :: "sock_event \<Rightarrow> string" where
  "event_name (Listening a) = ''listening''"
| "event_name (Fault e) = ''error''"
| "event_name (Datagram msg rinfo) = ''message''"

definition run_handler ::
  "runtime \<Rightarrow> handler \<Rightarrow> sock_event \<Rightarrow> facade \<Rightarrow> completion \<times> facade" where
  "run_handler rt h ev w =
     (case (h, ev) of
        (ErrorHandler, Fault e) \<Rightarrow> on_error e w
      | (MessageHandler, Datagram msg rinfo) \<Rightarrow> on_message rt msg rinfo w
      | (ListeningHandler, Listening a) \<Rightarrow> on_listening w
      | _ \<Rightarrow> (Normal, w))"

fun run_listeners ::
  "runtime \<Rightarrow> handler list \<Rightarrow> sock_event \<Rightarrow> facade \<Rightarrow> completion \<times> facade" where
  "run_listeners rt [] ev w = (Normal, w)"
| "run_listeners rt (h # hs) ev w = andThen (run_handler rt h ev w) (run_listeners rt hs ev)"

definition arrives :: "sock_state \<Rightarrow> sock_event \<Rightarrow> bool" where
  "arrives st ev =
     (case ev of
        Listening a \<Rightarrow> st = Binding
      | Fault e \<Rightarrow> st \<noteq> Closed
      | Datagram msg rinfo \<Rightarrow> st = Bound)"

definition platform_event ::
  "runtime \<Rightarrow> nat \<Rightarrow> sock_event \<Rightarrow> facade \<Rightarrow> completion \<times> facade" where
  "platform_event rt i ev w =
     (let s = sockets w ! i in
      if i < length (sockets w) \<and> arrives (s_state s) ev then
        run_listeners rt (map snd (filter (\<lambda>l. fst l = event_name ev) (s_on s))) ev
          (case ev of
             Listening a \<Rightarrow> update_socket i (\<lambda>s. s\<lparr>s_state := Bound, s_address := a\<rparr>) w
           | Fault e \<Rightarrow>
               if s_state s = Binding then update_socket i (\<lambda>s. s\<lparr>s_state := Unbound\<rparr>) w
               else w
           | Datagram msg rinfo \<Rightarrow> w)
      else (Normal, w))"

section \<open>Sample data\<close>

text \<open>An instance whose private fields are all still undefined, with the given subscribers.\<close>

definition fresh :: "(string \<times> listener) list \<Rightarrow> facade" where
  "fresh subs =
     \<lparr> f_ip = None, f_eventPort = None, f_server = None, f_system = None, f_zone = None,
       f_tuner = None, f_netusb = None, f_cd = None, f_clock = None,
       sockets = [], calls = [], subscribers = subs, emitted = [] \<rparr>"

definition sample_client :: client where
  "sample_client = client_setup System ''192.168.1.10'' 50001"

definition sample_call :: call where
  "sample_call = \<lparr> a_zone = ''main'', a_name = ''Living Room'', a_others = [] \<rparr>"

definition ok_body :: jsval where
  "ok_body = JObj [(''response_code'', JNum 0),
                   (''mac_address_filter'', JObj [(''filter'', JBool False)])]"

definition busy_body :: jsval where
  "busy_body = JObj [(''response_code'', JNum 3)]"

definition timeout_error :: jsval where
  "timeout_error = JErrorObj ''AxiosError'' ''timeout of 15000ms exceeded''"

definition device_ok :: network where
  "device_ok rq = Fulfilled ok_body"

definition device_busy :: network where
  "device_busy rq = Fulfilled busy_body"

definition device_down :: network where
  "device_down rq = Failed timeout_error"

text \<open>
  A stand-in for the two built-ins on the two texts the examples use: the text
  \<open>{"a":1}\<close> parses to the object with \<open>a = 1\<close>, anything else is a syntax error.
\<close>

definition a1_text :: string where
  "a1_text = [CHR ''{'', CHR 0x22, CHR ''a'', CHR 0x22, CHR '':'', CHR ''1'', CHR ''}'']"

definition SyntaxError :: jsval where
  "SyntaxError = JErrorObj ''SyntaxError'' ''Unexpected token''"

definition sample_runtime :: runtime where
  "sample_runtime =
     \<lparr> buffer_toString = (\<lambda>bytes. bytes),
       json_parse = (\<lambda>text. if text = a1_text then Inr (JObj [(''a'', JNum 1)])
                             else Inl SyntaxError) \<rparr>"

definition sample_rinfo :: jsval where
  "sample_rinfo = JObj [(''address'', JStr ''192.168.1.10''), (''family'', JStr ''IPv4''),
                        (''port'', JNum 41100), (''size'', JNum 7)]"

definition sample_address :: jsval where
  "sample_address = JObj [(''address'', JStr ''0.0.0.0''), (''family'', JStr ''IPv4''),
                          (''port'', JNum 50001)]"

definition EADDRINUSE :: jsval where
  "EADDRINUSE = JErrorObj ''Error'' ''bind EADDRINUSE 0.0.0.0:50001''"

definition zone_client :: client where
  "zone_client = client_setup Zone ''192.168.1.10'' 50001"

definition mac_request :: request where
  "mac_request =
     \<lparr> rq_baseURL = ''http://192.168.1.10:80/YamahaExtendedControl/v1/system'',
       rq_headers = [(''X-AppName'', JStr ''ERDesigns/1.0''), (''X-AppPort'', JNum 50001)],
       rq_timeout = 15000, rq_verb = GET, rq_path = ''/getMacAddressFilter'',
       rq_data = NoPayload \<rparr>"

definition status_request :: request where
  "status_request =
     \<lparr> rq_baseURL = ''http://192.168.1.10:80/YamahaExtendedControl/v1'',
       rq_headers = [(''X-AppName'', JStr ''ERDesigns/1.0''), (''X-AppPort'', JNum 50001)],
       rq_timeout = 15000, rq_verb = GET, rq_path = ''main/getStatus'',
       rq_data = NoPayload \<rparr>"

text \<open>
  Abbreviations for what \<open>setupEventReceiver\<close> leaves behind: the new socket once its three
  listeners are registered and \<open>bind\<close> was called, and the socket calls made for it.
\<close>

definition wired_socket :: "int \<Rightarrow> socket" where
  "wired_socket port =
     \<lparr> s_state = Binding, s_port = Some port, s_address = JUndefined,
       s_on = [(''error'', ErrorHandler), (''message'', MessageHandler),
               (''listening'', ListeningHandler)] \<rparr>"

definition wire_calls :: "nat \<Rightarrow> int \<Rightarrow> sock_call list" where
  "wire_calls n port =
     [CreateSocket ''udp4'', On n ''error'', On n ''message'', On n ''listening'', Bind n port]"

text \<open>
  Sample listeners: one that only returns, one that throws, and one that rebinds the
  receiver to port 50002 (as a supervisor reacting to a fault would).
\<close>

definition quiet :: listener where
  "quiet args = []"

definition boom :: jsval where
  "boom = JErrorObj ''Error'' ''listener failed''"

definition thrower :: listener where
  "thrower args = [ThrowValue boom]"

definition rebinder :: listener where
  "rebinder args = [CallSetupEventReceiver 50002]"

text \<open>
  Sample runs: an instance after \<open>setup('192.168.1.10', 50001)\<close>; a receiver after
  \<open>setupEventReceiver(50001)\<close> alone, the same once the platform reported \<open>listening\<close>,
  and the same after a first datagram \<open>{"a":1}\<close> was delivered.
\<close>

definition constructed :: "(string \<times> listener) list \<Rightarrow> facade" where
  "constructed subs = snd (facade_setup ''192.168.1.10'' 50001 (fresh subs))"

definition receiver_bound :: facade where
  "receiver_bound = snd (setupEventReceiver 50001 (fresh [(''message'', quiet)]))"

definition receiver_listening :: facade where
  "receiver_listening =
     snd (platform_event sample_runtime 0 (Listening sample_address) receiver_bound)"

definition receiver_after_first :: facade where
  "receiver_after_first =
     snd (platform_event sample_runtime 0 (Datagram a1_text sample_rinfo) receiver_listening)"

definition junk_text :: string where
  "junk_text = ''not json''"

section \<open>The envelope decoder, for every endpoint method\<close>

lemmas tables = endpoints_def system_endpoints_def zone_endpoints_def tuner_endpoints_def
  netusb_endpoints_def cd_endpoints_def clock_endpoints_def

lemma endpoints_count: "length endpoints = 104"
  by (simp add: tables)

lemma envelope_zero:
  assumes "get_field res ''response_code'' = Inr (JNum 0)"
  shows "envelope WholeBody (Fulfilled res) = Resolved res"
    and "\<exists>v. get_field res f = Inr v \<and> envelope (SubField f) (Fulfilled res) = Resolved v"
  using assms by (cases res; simp add: envelope_def)+

lemma envelope_values:
  "envelope sh (Failed e) = Rejected e"
  "get_field res ''response_code'' = Inr code \<Longrightarrow> code \<noteq> JNum 0 \<Longrightarrow>
     envelope sh (Fulfilled res) = Rejected res"
  "get_field res ''response_code'' = Inl t \<Longrightarrow> envelope sh (Fulfilled res) = Rejected t"
  by (simp_all add: envelope_def)

lemma envelope_rejects:
  "(\<exists>v. envelope sh r = Rejected v) \<longleftrightarrow>
     ((\<exists>e. r = Failed e) \<or>
      (\<exists>res. r = Fulfilled res \<and> get_field res ''response_code'' \<noteq> Inr (JNum 0)))"
proof (cases r)
  case (Failed e)
  then show ?thesis by (simp add: envelope_def)
next
  case (Fulfilled res)
  show ?thesis
  proof (cases "get_field res ''response_code''")
    case (Inl t)
    then show ?thesis using Fulfilled by (simp add: envelope_def)
  next
    case (Inr code)
    show ?thesis
    proof (cases "code = JNum 0")
      case True
      then have z: "get_field res ''response_code'' = Inr (JNum 0)" using Inr by simp
      have "\<exists>v. envelope sh (Fulfilled res) = Resolved v"
      proof (cases sh)
        case WholeBody
        then show ?thesis using envelope_zero(1)[OF z] by simp
      next
        case (SubField f)
        then show ?thesis using envelope_zero(2)[OF z, of f] by auto
      qed
      then show ?thesis using Fulfilled z by auto
    next
      case False
      then show ?thesis using Fulfilled Inr by (simp add: envelope_def)
    qed
  qed
qed

lemma invoke_issued:
  "fst (invoke c ep a net) = [rq] \<Longrightarrow>
     snd (invoke c ep a net) = envelope (ep_shape ep) (net rq)"
  by (auto simp: invoke_def perform_def Let_def split: option.splits)

lemma invoke_cases:
  "(\<exists>rq. fst (invoke c ep a net) = [rq]) \<or>
   (invoke c ep a net = ([], Rejected name_too_long) \<and>
    (\<exists>n. ep_check ep = NameAtMost n \<and> n < length (a_name a)))"
  by (auto simp: invoke_def local_check_def perform_def Let_def split: precheck.splits)

lemma subfield_rows:
  "map (\<lambda>ep. (ep_client ep, ep_name ep, ep_shape ep))
     (filter (\<lambda>ep. ep_shape ep \<noteq> WholeBody) endpoints) =
    [(System, ''getMacAddressFilter'', SubField ''mac_address_filter''),
     (System, ''setMacAddressFilter'', SubField ''mac_address_filter''),
     (System, ''getNetworkStandby'', SubField ''network_standby''),
     (System, ''setNetworkStandby'', SubField ''network_standby''),
     (System, ''getBluetoothInfo'', SubField ''bluetooth_info''),
     (System, ''setBluetoothStandby'', SubField ''bluetooth_standby''),
     (System, ''setBluetoothTxSetting'', SubField ''bluetooth_tx_setting'')]"
  by (simp add: tables)

lemma checked_rows:
  "filter (\<lambda>ep. ep_check ep \<noteq> NoCheck) endpoints =
     [Endpoint System ''setNetworkName'' POST False ''/setNetworkName'' (Body [''name''])
        WholeBody (NameAtMost 32)]"
  by (simp add: tables)

text \<open>The rows of the table agree with the methods written out from their source text.\<close>

lemma row_is_method:
  "invoke c (Endpoint System ''getDeviceInfo'' GET False ''/getDeviceInfo'' NoData WholeBody
      NoCheck) a net = getDeviceInfo c net"
  "invoke c (Endpoint System ''setNetworkName'' POST False ''/setNetworkName'' (Body [''name''])
      WholeBody (NameAtMost 32)) a net = setNetworkName c (a_name a) net"
  "invoke c (Endpoint System ''getMacAddressFilter'' GET False ''/getMacAddressFilter'' NoData
      (SubField ''mac_address_filter'') NoCheck) a net = getMacAddressFilter c net"
  "invoke c (Endpoint System ''getNetworkStandby'' GET False ''/getNetworkStandby'' NoData
      (SubField ''network_standby'') NoCheck) a net = getNetworkStandby c net"
  "invoke c (Endpoint Zone ''getStatus'' GET True ''/getStatus'' NoData WholeBody NoCheck) a net =
     getStatus c (a_zone a) net"
  by (simp_all add: invoke_def local_check_def build_path_def build_data_def
      getDeviceInfo_def setNetworkName_def getMacAddressFilter_def getNetworkStandby_def
      getStatus_def arg_value_def)

lemma rows_in_table:
  "Endpoint System ''getMacAddressFilter'' GET False ''/getMacAddressFilter'' NoData
      (SubField ''mac_address_filter'') NoCheck \<in> set endpoints"
  "Endpoint Zone ''getStatus'' GET True ''/getStatus'' NoData WholeBody NoCheck \<in> set endpoints"
  "Endpoint System ''setNetworkName'' POST False ''/setNetworkName'' (Body [''name''])
      WholeBody (NameAtMost 32) \<in> set endpoints"
  by (simp_all add: tables)

text \<open>
  C2. For every endpoint method of every client: when the method has issued its request,
  the HTTP exchange completes and the body's \<open>response_code\<close> is strictly equal to 0, the
  promise resolves; the resolved value is the whole body, except for the methods whose row
  names a sub-field, which resolve that field of the body. The methods with a sub-field are
  exactly the seven listed (among them \<open>getMacAddressFilter\<close> with \<open>mac_address_filter\<close> and
  \<open>getNetworkStandby\<close> with \<open>network_standby\<close>).
\<close>

theorem zero_code_resolves:
  "(\<forall>ep\<in>set endpoints. \<forall>c a net rq res.
      fst (invoke c ep a net) = [rq] \<and> net rq = Fulfilled res \<and>
      get_field res ''response_code'' = Inr (JNum 0) \<longrightarrow>
        (ep_shape ep = WholeBody \<longrightarrow> snd (invoke c ep a net) = Resolved res) \<and>
        (\<forall>f. ep_shape ep = SubField f \<longrightarrow>
           (\<exists>v. get_field res f = Inr v \<and> snd (invoke c ep a net) = Resolved v)))
   \<and> map (\<lambda>ep. (ep_client ep, ep_name ep, ep_shape ep))
        (filter (\<lambda>ep. ep_shape ep \<noteq> WholeBody) endpoints) =
      [(System, ''getMacAddressFilter'', SubField ''mac_address_filter''),
       (System, ''setMacAddressFilter'', SubField ''mac_address_filter''),
       (System, ''getNetworkStandby'', SubField ''network_standby''),
       (System, ''setNetworkStandby'', SubField ''network_standby''),
       (System, ''getBluetoothInfo'', SubField ''bluetooth_info''),
       (System, ''setBluetoothStandby'', SubField ''bluetooth_standby''),
       (System, ''setBluetoothTxSetting'', SubField ''bluetooth_tx_setting'')]"
proof (intro conjI ballI allI impI)
  fix ep c a net rq res
  assume h: "fst (invoke c ep a net) = [rq] \<and> net rq = Fulfilled res \<and>
      get_field res ''response_code'' = Inr (JNum 0)"
  then have out: "snd (invoke c ep a net) = envelope (ep_shape ep) (Fulfilled res)"
    using invoke_issued[of c ep a net rq] by simp
  { assume "ep_shape ep = WholeBody"
    then show "snd (invoke c ep a net) = Resolved res"
      using out h envelope_zero(1) by simp }
  { fix f assume "ep_shape ep = SubField f"
    then show "\<exists>v. get_field res f = Inr v \<and> snd (invoke c ep a net) = Resolved v"
      using out h envelope_zero(2) by simp }
next
  show "map (\<lambda>ep. (ep_client ep, ep_name ep, ep_shape ep))
        (filter (\<lambda>ep. ep_shape ep \<noteq> WholeBody) endpoints) =
      [(System, ''getMacAddressFilter'', SubField ''mac_address_filter''),
       (System, ''setMacAddressFilter'', SubField ''mac_address_filter''),
       (System, ''getNetworkStandby'', SubField ''network_standby''),
       (System, ''setNetworkStandby'', SubField ''network_standby''),
       (System, ''getBluetoothInfo'', SubField ''bluetooth_info''),
       (System, ''setBluetoothStandby'', SubField ''bluetooth_standby''),
       (System, ''setBluetoothTxSetting'', SubField ''bluetooth_tx_setting'')]"
    by (rule subfield_rows)
qed

text \<open>
  The theorem at \<open>getMacAddressFilter\<close>, answered with
  \<open>{response_code: 0, mac_address_filter: {filter: false}}\<close>.
\<close>

theorem zero_code_resolves_witness:
  "Endpoint System ''getMacAddressFilter'' GET False ''/getMacAddressFilter'' NoData
      (SubField ''mac_address_filter'') NoCheck \<in> set endpoints
   \<and> fst (getMacAddressFilter sample_client device_ok) = [mac_request]
   \<and> device_ok mac_request = Fulfilled ok_body
   \<and> get_field ok_body ''response_code'' = Inr (JNum 0)
   \<and> snd (getMacAddressFilter sample_client device_ok) =
       Resolved (JObj [(''filter'', JBool False)])"
proof -
  let ?ep = "Endpoint System ''getMacAddressFilter'' GET False ''/getMacAddressFilter'' NoData
      (SubField ''mac_address_filter'') NoCheck"
  have m: "?ep \<in> set endpoints" by (rule rows_in_table)
  have i: "fst (invoke sample_client ?ep sample_call device_ok) = [mac_request]"
    by (simp add: row_is_method getMacAddressFilter_def perform_def Let_def sample_client_def
        client_setup_def mac_request_def)
  have n: "device_ok mac_request = Fulfilled ok_body" by (simp add: device_ok_def)
  have z: "get_field ok_body ''response_code'' = Inr (JNum 0)" by (simp add: ok_body_def)
  have s: "ep_shape ?ep = SubField ''mac_address_filter''" by simp
  note t = zero_code_resolves[THEN conjunct1, rule_format, THEN conjunct2, rule_format]
  have "\<exists>v. get_field ok_body ''mac_address_filter'' = Inr v \<and>
          snd (invoke sample_client ?ep sample_call device_ok) = Resolved v"
    by (rule t[OF m conjI[OF i conjI[OF n z]] s])
  then have "snd (invoke sample_client ?ep sample_call device_ok) =
      Resolved (JObj [(''filter'', JBool False)])"
    by (simp add: ok_body_def)
  then show ?thesis using m z i n by (simp add: row_is_method)
qed

text \<open>
  C3, as amended. For every endpoint method of every client: when the method has issued
  its request, the promise rejects exactly when the transport fails or the body's
  \<open>response_code\<close> is not strictly equal to 0; a transport fault rejects with the transport
  error object; a body whose \<open>response_code\<close> reads as a value other than 0 rejects with
  the full body; a body that is \<open>null\<close> or \<open>undefined\<close> rejects with the TypeError of the
  failed read. The one method that may issue no request is \<open>setNetworkName\<close> of the system
  client, which rejects with a local Error when the name is longer than 32 characters.
\<close>

theorem rejects_iff_when_issued:
  "\<forall>ep\<in>set endpoints. \<forall>c a net.
     (\<forall>rq. fst (invoke c ep a net) = [rq] \<longrightarrow>
        ((\<exists>v. snd (invoke c ep a net) = Rejected v) \<longleftrightarrow>
           ((\<exists>e. net rq = Failed e) \<or>
            (\<exists>res. net rq = Fulfilled res \<and>
               get_field res ''response_code'' \<noteq> Inr (JNum 0))))
        \<and> (\<forall>e. net rq = Failed e \<longrightarrow> snd (invoke c ep a net) = Rejected e)
        \<and> (\<forall>res code. net rq = Fulfilled res \<and>
              get_field res ''response_code'' = Inr code \<and> code \<noteq> JNum 0 \<longrightarrow>
              snd (invoke c ep a net) = Rejected res)
        \<and> (\<forall>res t. net rq = Fulfilled res \<and> get_field res ''response_code'' = Inl t \<longrightarrow>
              snd (invoke c ep a net) = Rejected t))
     \<and> ((\<exists>rq. fst (invoke c ep a net) = [rq]) \<or>
        (invoke c ep a net = ([], Rejected name_too_long) \<and> ep_client ep = System \<and>
         ep_name ep = ''setNetworkName'' \<and> 32 < length (a_name a)))"
proof (intro ballI allI conjI impI)
  fix ep c a net rq
  assume "fst (invoke c ep a net) = [rq]"
  then have out: "snd (invoke c ep a net) = envelope (ep_shape ep) (net rq)"
    by (rule invoke_issued)
  show "(\<exists>v. snd (invoke c ep a net) = Rejected v) \<longleftrightarrow>
           ((\<exists>e. net rq = Failed e) \<or>
            (\<exists>res. net rq = Fulfilled res \<and>
               get_field res ''response_code'' \<noteq> Inr (JNum 0)))"
    unfolding out by (rule envelope_rejects)
  { fix e assume "net rq = Failed e"
    then show "snd (invoke c ep a net) = Rejected e"
      unfolding out by (simp add: envelope_values) }
  { fix res code
    assume "net rq = Fulfilled res \<and> get_field res ''response_code'' = Inr code \<and>
      code \<noteq> JNum 0"
    then show "snd (invoke c ep a net) = Rejected res"
      unfolding out by (simp add: envelope_values) }
  { fix res t
    assume "net rq = Fulfilled res \<and> get_field res ''response_code'' = Inl t"
    then show "snd (invoke c ep a net) = Rejected t"
      unfolding out by (simp add: envelope_values) }
next
  fix ep c a net
  assume mem: "ep \<in> set endpoints"
  show "(\<exists>rq. fst (invoke c ep a net) = [rq]) \<or>
        (invoke c ep a net = ([], Rejected name_too_long) \<and> ep_client ep = System \<and>
         ep_name ep = ''setNetworkName'' \<and> 32 < length (a_name a))"
  proof (cases "\<exists>rq. fst (invoke c ep a net) = [rq]")
    case True
    then show ?thesis by simp
  next
    case False
    with invoke_cases[of c ep a net] obtain n where
      r: "invoke c ep a net = ([], Rejected name_too_long)" and
      ck: "ep_check ep = NameAtMost n" and n: "n < length (a_name a)" by blast
    from ck mem have "ep \<in> set (filter (\<lambda>ep. ep_check ep \<noteq> NoCheck) endpoints)" by simp
    then have "ep = Endpoint System ''setNetworkName'' POST False ''/setNetworkName''
        (Body [''name'']) WholeBody (NameAtMost 32)"
      unfolding checked_rows by simp
    with r ck n show ?thesis by simp
  qed
qed

text \<open>
  The theorem at \<open>getStatus\<close> of the zone client: a device answering
  \<open>{response_code: 3}\<close> rejects with that body, and a timeout rejects with the transport
  error.
\<close>

theorem rejects_iff_when_issued_witness:
  "Endpoint Zone ''getStatus'' GET True ''/getStatus'' NoData WholeBody NoCheck \<in> set endpoints
   \<and> fst (getStatus zone_client ''main'' device_busy) = [status_request]
   \<and> device_busy status_request = Fulfilled busy_body
   \<and> get_field busy_body ''response_code'' = Inr (JNum 3)
   \<and> JNum 3 \<noteq> JNum 0
   \<and> snd (getStatus zone_client ''main'' device_busy) = Rejected busy_body
   \<and> fst (getStatus zone_client ''main'' device_down) = [status_request]
   \<and> device_down status_request = Failed timeout_error
   \<and> snd (getStatus zone_client ''main'' device_down) = Rejected timeout_error"
proof -
  let ?ep = "Endpoint Zone ''getStatus'' GET True ''/getStatus'' NoData WholeBody NoCheck"
  have m: "?ep \<in> set endpoints" by (rule rows_in_table)
  have i: "fst (invoke zone_client ?ep sample_call net) = [status_request]" for net
    by (simp add: row_is_method getStatus_def perform_def Let_def zone_client_def
        client_setup_def status_request_def sample_call_def)
  have z: "a_zone sample_call = ''main''" by (simp add: sample_call_def)
  have n1: "device_busy status_request = Fulfilled busy_body" by (simp add: device_busy_def)
  have c1: "get_field busy_body ''response_code'' = Inr (JNum 3)" by (simp add: busy_body_def)
  have d1: "JNum 3 \<noteq> JNum 0" by simp
  have n2: "device_down status_request = Failed timeout_error" by (simp add: device_down_def)
  note t = rejects_iff_when_issued[rule_format, OF m, THEN conjunct1, rule_format]
  have r1: "snd (invoke zone_client ?ep sample_call device_busy) = Rejected busy_body"
    by (rule t[where net = device_busy, OF i, THEN conjunct2, THEN conjunct2, THEN conjunct1,
          rule_format, OF conjI[OF n1 conjI[OF c1 d1]]])
  have r2: "snd (invoke zone_client ?ep sample_call device_down) = Rejected timeout_error"
    by (rule t[where net = device_down, OF i, THEN conjunct2, THEN conjunct1, rule_format,
          OF n2])
  show ?thesis using m i n1 c1 n2 r1 r2 z by (simp add: row_is_method)
qed

text \<open>
  C3 as stated fails at \<open>setNetworkName\<close> with a name of 33 characters, on a device that
  would answer every request with \<open>response_code\<close> 0: the promise rejects although no
  request is issued, so there is neither a response nor a transport fault.
\<close>

theorem local_rejection_counterexample:
  "setNetworkName sample_client (replicate 33 CHR ''a'') device_ok =
     ([], Rejected name_too_long)
   \<and> invoke sample_client
       (Endpoint System ''setNetworkName'' POST False ''/setNetworkName'' (Body [''name''])
          WholeBody (NameAtMost 32))
       (sample_call\<lparr>a_name := replicate 33 CHR ''a''\<rparr>) device_ok =
     ([], Rejected name_too_long)"
  by (simp add: row_is_method setNetworkName_def)

text \<open>
  C4. \<open>setNetworkName\<close> called with a name of 33 characters rejects with the local Error and
  issues no request; called with a name of exactly 32 characters it issues the request
  \<open>POST /setNetworkName\<close> with body \<open>{name}\<close>.
\<close>

theorem setNetworkName_limit:
  "(length name = 33 \<longrightarrow> setNetworkName c name net = ([], Rejected name_too_long))
   \<and> (length name = 32 \<longrightarrow>
        fst (setNetworkName c name net) =
          [\<lparr> rq_baseURL = cl_baseURL c, rq_headers = cl_headers c, rq_timeout = cl_timeout c,
             rq_verb = POST, rq_path = ''/setNetworkName'',
             rq_data = JsonBody (JObj [(''name'', JStr name)]) \<rparr>])
   \<and> name_too_long =
       JErrorObj ''Error'' ''The network name must not be longer than 32 characters.''"
  by (simp add: setNetworkName_def perform_def Let_def name_too_long_def)

theorem setNetworkName_limit_witness:
  "length (replicate 33 CHR ''a'') = 33
   \<and> setNetworkName sample_client (replicate 33 CHR ''a'') device_ok =
       ([], Rejected name_too_long)
   \<and> length (replicate 32 CHR ''a'') = 32
   \<and> map rq_path (fst (setNetworkName sample_client (replicate 32 CHR ''a'') device_ok)) =
       [''/setNetworkName'']
   \<and> map rq_verb (fst (setNetworkName sample_client (replicate 32 CHR ''a'') device_ok)) =
       [POST]"
proof -
  have l33: "length (replicate 33 CHR ''a'') = 33" and l32: "length (replicate 32 CHR ''a'') = 32"
    by simp_all
  note a = setNetworkName_limit[of "replicate 33 CHR ''a''" sample_client device_ok,
      THEN conjunct1, rule_format, OF l33]
  note b = setNetworkName_limit[of "replicate 32 CHR ''a''" sample_client device_ok,
      THEN conjunct2, THEN conjunct1, rule_format, OF l32]
  have p: "map rq_path (fst (setNetworkName sample_client (replicate 32 CHR ''a'') device_ok)) =
       [''/setNetworkName'']"
    unfolding b by simp
  have v: "map rq_verb (fst (setNetworkName sample_client (replicate 32 CHR ''a'') device_ok)) =
       [POST]"
    unfolding b by simp
  show ?thesis using l33 l32 a p v by blast
qed

section \<open>Construction\<close>

lemmas node_defs = andThen_def dgram_createSocket_def socket_on_def socket_bind_def
  socket_close_def socket_address_def update_socket_def

lemmas event_defs = platform_event_def arrives_def run_handler_def on_error_def on_message_def
  on_listening_def emit_def listeners_of_def

lemma setupEventReceiver_none:
  "f_server w = None \<Longrightarrow>
   setupEventReceiver eventPort w =
   (Normal, w\<lparr>f_server := Some (length (sockets w)),
              sockets := sockets w @ [wired_socket eventPort],
              calls := calls w @ wire_calls (length (sockets w)) eventPort\<rparr>)"
  by (simp add: setupEventReceiver_def node_defs wired_socket_def wire_calls_def Let_def)

lemma setupEventReceiver_open:
  "f_server w = Some old \<Longrightarrow> old < length (sockets w) \<Longrightarrow>
   s_state (sockets w ! old) \<noteq> Closed \<Longrightarrow>
   setupEventReceiver eventPort w =
   (Normal, w\<lparr>f_server := Some (length (sockets w)),
              sockets := (sockets w)[old := (sockets w ! old)\<lparr>s_state := Closed\<rparr>]
                           @ [wired_socket eventPort],
              calls := calls w @ Close old # wire_calls (length (sockets w)) eventPort\<rparr>)"
  by (simp add: setupEventReceiver_def node_defs wired_socket_def wire_calls_def Let_def)

lemma setupEventReceiver_closed:
  "f_server w = Some old \<Longrightarrow> s_state (sockets w ! old) = Closed \<Longrightarrow>
   setupEventReceiver eventPort w =
   (Throw ERR_SOCKET_DGRAM_NOT_RUNNING, w\<lparr>calls := calls w @ [Close old]\<rparr>)"
  by (simp add: setupEventReceiver_def node_defs Let_def)

lemma setupEventReceiver_normal:
  assumes "setupEventReceiver eventPort w = (Normal, w1)"
  shows "f_server w1 = Some (length (sockets w))"
    and "length (sockets w1) = Suc (length (sockets w))"
    and "sockets w1 ! length (sockets w) = wired_socket eventPort"
    and "subscribers w1 = subscribers w" and "emitted w1 = emitted w"
  using assms
  by (auto simp: setupEventReceiver_def node_defs wired_socket_def Let_def nth_append
      split: option.splits if_splits)

lemma setupEventReceiver_frame:
  "emitted (snd (setupEventReceiver eventPort w)) = emitted w"
  "subscribers (snd (setupEventReceiver eventPort w)) = subscribers w"
  by (auto simp: setupEventReceiver_def node_defs Let_def split: option.splits)

lemma facade_setup_frame:
  "emitted (snd (facade_setup ip eventPort w)) = emitted w"
  "subscribers (snd (facade_setup ip eventPort w)) = subscribers w"
proof -
  let ?w = "w\<lparr>f_ip := Some ip, f_eventPort := Some eventPort\<rparr>"
  obtain r w1 where s: "setupEventReceiver eventPort ?w = (r, w1)"
    by (cases "setupEventReceiver eventPort ?w")
  have "emitted w1 = emitted w" "subscribers w1 = subscribers w"
    using setupEventReceiver_frame[of eventPort ?w] s by simp_all
  then show "emitted (snd (facade_setup ip eventPort w)) = emitted w"
    "subscribers (snd (facade_setup ip eventPort w)) = subscribers w"
    using s by (cases r; simp add: facade_setup_def andThen_def)+
qed

text \<open>
  Run on an instance whose fields are still undefined, \<open>setup\<close> stores the address and the
  port, creates and binds the socket, and builds the six clients for that address.
\<close>

lemma facade_setup_fresh:
  "facade_setup ip port (fresh subs) =
     (Normal,
      \<lparr> f_ip = Some ip, f_eventPort = Some port, f_server = Some 0,
        f_system = Some (client_setup System ip port),
        f_zone = Some (client_setup Zone ip port),
        f_tuner = Some (client_setup Tuner ip port),
        f_netusb = Some (client_setup NetworkUSB ip port),
        f_cd = Some (client_setup CD ip port),
        f_clock = Some (client_setup Clock ip port),
        sockets = [wired_socket port], calls = wire_calls 0 port,
        subscribers = subs, emitted = [] \<rparr>)"
  by (simp add: facade_setup_def setupEventReceiver_none fresh_def andThen_def)

lemma constructed_value:
  "constructed subs =
      \<lparr> f_ip = Some ''192.168.1.10'', f_eventPort = Some 50001, f_server = Some 0,
        f_system = Some (client_setup System ''192.168.1.10'' 50001),
        f_zone = Some (client_setup Zone ''192.168.1.10'' 50001),
        f_tuner = Some (client_setup Tuner ''192.168.1.10'' 50001),
        f_netusb = Some (client_setup NetworkUSB ''192.168.1.10'' 50001),
        f_cd = Some (client_setup CD ''192.168.1.10'' 50001),
        f_clock = Some (client_setup Clock ''192.168.1.10'' 50001),
        sockets = [wired_socket 50001], calls = wire_calls 0 50001,
        subscribers = subs, emitted = [] \<rparr>"
  by (simp add: constructed_def facade_setup_fresh)

lemma heritage_unbound:
  "''EventEmitter'' \<notin> set globals \<Longrightarrow>
     evaluate_heritage globals =
       Inl (JErrorObj ''ReferenceError'' ''EventEmitter is not defined'')"
  by (simp add: evaluate_heritage_def module_bindings_def)

text \<open>
  C1 states that constructing the Facade succeeds for every address and port. The code at
  any input: \<open>new YamahaMusicCast(ipAddress, eventPort)\<close> throws the ReferenceError for
  reading \<open>this\<close> before \<open>super(...)\<close>, whatever the arguments, so no object is returned.
\<close>

theorem construction_throws:
  "new_YamahaMusicCast ipAddress eventPort = Inl this_before_super"
  by (simp add: new_YamahaMusicCast_def constructor_body_def)

text \<open>
  Were the constructor body run on an initialised instance, the call without an event
  port would store 50001, bind the socket to it and give it to every client.
\<close>

lemma default_port_on_instance:
  "\<exists>w. constructor_body (ThisObject (fresh subs)) ipAddress None = Inr w
       \<and> get_eventPort w = Some 50001
       \<and> map s_port (sockets w) = [Some 50001]
       \<and> (\<forall>sub. map_option cl_eventPort (get_client sub w) = Some 50001)"
  by (simp add: constructor_body_def facade_setup_fresh get_eventPort_def get_client_def
      client_setup_def wired_socket_def split: subsystem.split)

text \<open>
  C10 states that a Facade constructed without an event port uses 50001 and reports it
  through its getter. The code at that input: \<open>new YamahaMusicCast(ipAddress)\<close> binds the
  default to the parameter and then throws on reading \<open>this\<close>, so no port is stored and
  there is no object whose getter could report one.
\<close>

theorem construction_without_port_throws:
  "new_YamahaMusicCast ipAddress None = Inl this_before_super
   \<and> (case new_YamahaMusicCast ipAddress None of
        Inl thrown \<Rightarrow> None
      | Inr w \<Rightarrow> get_eventPort w) = None"
  by (simp add: new_YamahaMusicCast_def constructor_body_def)

text \<open>
  C9. Assigning \<open>ip\<close> or \<open>eventPort\<close> changes that stored field and nothing else: the six
  clients, the socket reference, the sockets and the socket calls are as before. On the
  sample instance, every client still has the base URL of the old address after \<open>ip\<close> was
  assigned, and the socket still has the old port after \<open>eventPort\<close> was assigned.
\<close>

theorem setters_change_one_field:
  "set_ip ip w = w\<lparr>f_ip := Some ip\<rparr>
   \<and> set_eventPort eventPort w = w\<lparr>f_eventPort := Some eventPort\<rparr>
   \<and> get_ip (set_ip ip w) = Some ip
   \<and> get_eventPort (set_eventPort eventPort w) = Some eventPort
   \<and> get_eventPort (set_ip ip w) = get_eventPort w
   \<and> get_ip (set_eventPort eventPort w) = get_ip w
   \<and> (\<forall>sub. get_client sub (set_ip ip w) = get_client sub w)
   \<and> (\<forall>sub. get_client sub (set_eventPort eventPort w) = get_client sub w)
   \<and> f_server (set_ip ip w) = f_server w \<and> sockets (set_ip ip w) = sockets w
   \<and> f_server (set_eventPort eventPort w) = f_server w
   \<and> sockets (set_eventPort eventPort w) = sockets w
   \<and> calls (set_ip ip w) = calls w \<and> calls (set_eventPort eventPort w) = calls w
   \<and> (\<forall>sub. map_option cl_baseURL (get_client sub (set_ip ip (constructed subs))) =
         Some (''http://192.168.1.10:80/YamahaExtendedControl/v1'' @ base_suffix sub))
   \<and> map s_port (sockets (set_eventPort eventPort (constructed subs))) = [Some 50001]"
  by (simp add: set_ip_def set_eventPort_def get_ip_def get_eventPort_def get_client_def
      constructed_value client_setup_def wired_socket_def split: subsystem.split)

section \<open>The event receiver\<close>

text \<open>What listeners do leaves the log of emitted events and the subscriptions alone.\<close>

lemma run_action_frame:
  "emitted (snd (run_action a w)) = emitted w"
  "subscribers (snd (run_action a w)) = subscribers w"
  by (cases a; simp add: run_action_def setupEventReceiver_frame facade_setup_frame
      set_ip_def set_eventPort_def)+

lemma run_actions_frame:
  "emitted (snd (run_actions as w)) = emitted w \<and>
   subscribers (snd (run_actions as w)) = subscribers w"
proof (induction as arbitrary: w)
  case Nil
  then show ?case by simp
next
  case (Cons a as)
  obtain r w1 where s: "run_action a w = (r, w1)" by (cases "run_action a w")
  have f: "emitted w1 = emitted w" "subscribers w1 = subscribers w"
    using run_action_frame[of a w] s by simp_all
  show ?case
  proof (cases r)
    case Normal
    then show ?thesis using s f Cons.IH[of w1] by (simp add: andThen_def)
  next
    case (Throw e)
    then show ?thesis using s f by (simp add: andThen_def)
  qed
qed

lemma call_listeners_frame:
  "emitted (snd (call_listeners ls w)) = emitted w \<and>
   subscribers (snd (call_listeners ls w)) = subscribers w"
proof (induction ls arbitrary: w)
  case Nil
  then show ?case by simp
next
  case (Cons l ls)
  obtain r w1 where s: "run_actions l w = (r, w1)" by (cases "run_actions l w")
  have f: "emitted w1 = emitted w" "subscribers w1 = subscribers w"
    using run_actions_frame[of l w] s by simp_all
  show ?case
  proof (cases r)
    case Normal
    then show ?thesis using s f Cons.IH[of w1] by (simp add: andThen_def)
  next
    case (Throw e)
    then show ?thesis using s f by (simp add: andThen_def)
  qed
qed

lemma call_quiet_listeners:
  "\<forall>l\<in>set ls. l = [] \<Longrightarrow> call_listeners ls w = (Normal, w)"
  by (induction ls) (simp_all add: andThen_def)

lemma andThen_done: "andThen r (run_listeners rt [] ev) = r"
proof (cases r)
  case (Pair c w)
  then show ?thesis by (cases c) (simp_all add: andThen_def)
qed

text \<open>
  A receiver set up by \<open>setupEventReceiver\<close> is bound, with its message listener in
  place, once the platform has reported \<open>listening\<close> (the listeners subscribed to
  \<open>listening\<close> only returning).
\<close>

lemma bound_after_listening:
  assumes "setupEventReceiver eventPort w0 = (Normal, w1)"
    and "\<forall>l\<in>set (listeners_of ''listening'' w0). l [addr] = []"
    and "w = snd (platform_event rt (length (sockets w0)) (Listening addr) w1)"
  shows "length (sockets w0) < length (sockets w)"
    and "s_state (sockets w ! length (sockets w0)) = Bound"
    and "map snd (filter (\<lambda>l. fst l = ''message'') (s_on (sockets w ! length (sockets w0)))) =
           [MessageHandler]"
proof -
  note n = setupEventReceiver_normal[OF assms(1)]
  let ?n = "length (sockets w0)"
  let ?w2 = "w1\<lparr>sockets := (sockets w1)[?n :=
                 (wired_socket eventPort)\<lparr>s_state := Bound, s_address := addr\<rparr>],
               calls := calls w1 @ [Address ?n]\<rparr>"
  have l: "listeners_of ''listening'' ?w2 = listeners_of ''listening'' w0"
    by (simp add: listeners_of_def n(4))
  have q: "\<forall>l\<in>set (map (\<lambda>l. l [addr]) (listeners_of ''listening'' ?w2)). l = []"
    using assms(2) unfolding l by simp
  have em: "emit ''listening'' [addr] ?w2 =
      (Normal, ?w2\<lparr>emitted := emitted ?w2 @ [(''listening'', [addr])]\<rparr>)"
    unfolding emit_def using call_quiet_listeners[OF q] by simp
  have st: "s_state (sockets w1 ! ?n) = Binding"
    and on: "s_on (sockets w1 ! ?n) = s_on (wired_socket eventPort)"
    by (simp_all add: n(3) wired_socket_def)
  have "platform_event rt ?n (Listening addr) w1 = emit ''listening'' [addr] ?w2"
    using n st on
    by (simp add: platform_event_def arrives_def run_handler_def on_listening_def
        socket_address_def update_socket_def andThen_done Let_def wired_socket_def)
  then have w: "w = ?w2\<lparr>emitted := emitted ?w2 @ [(''listening'', [addr])]\<rparr>"
    using assms(3) em by simp
  show "length (sockets w0) < length (sockets w)" using n by (simp add: w)
  show "s_state (sockets w ! length (sockets w0)) = Bound" using n by (simp add: w)
  show "map snd (filter (\<lambda>l. fst l = ''message'') (s_on (sockets w ! length (sockets w0)))) =
           [MessageHandler]"
    using n by (simp add: w wired_socket_def)
qed

lemma receiver_bound_value:
  "receiver_bound =
     (fresh [(''message'', quiet)])
       \<lparr>f_server := Some 0, sockets := [wired_socket 50001], calls := wire_calls 0 50001\<rparr>"
  by (simp add: receiver_bound_def setupEventReceiver_none fresh_def)

lemma receiver_listening_value:
  "receiver_listening =
     (fresh [(''message'', quiet)])
       \<lparr>f_server := Some 0,
        sockets := [(wired_socket 50001)\<lparr>s_state := Bound, s_address := sample_address\<rparr>],
        calls := wire_calls 0 50001 @ [Address 0],
        emitted := [(''listening'', [sample_address])]\<rparr>"
  by (simp add: receiver_listening_def receiver_bound_value fresh_def event_defs node_defs
      Let_def wired_socket_def)

lemma receiver_after_first_value:
  "receiver_after_first =
     receiver_listening
       \<lparr>emitted := [(''listening'', [sample_address]),
                    (''message'', [sample_rinfo, JObj [(''a'', JNum 1)]])]\<rparr>"
  by (simp add: receiver_after_first_def receiver_listening_value fresh_def event_defs
      andThen_def Let_def wired_socket_def sample_runtime_def quiet_def)

text \<open>
  C5. While the receiver's socket is bound, every datagram whose decoded text
  \<open>JSON.parse\<close> accepts makes the Facade emit a \<open>message\<close> event carrying the sender
  information and the parsed value: the event is logged with these two arguments, and
  the listeners subscribed to \<open>message\<close> are called with them, in order.
\<close>

theorem message_event_for_valid_json:
  assumes "i < length (sockets w)" and "s_state (sockets w ! i) = Bound"
    and "map snd (filter (\<lambda>l. fst l = ''message'') (s_on (sockets w ! i))) = [MessageHandler]"
    and "json_parse rt (buffer_toString rt msg) = Inr json"
  shows "platform_event rt i (Datagram msg rinfo) w =
           call_listeners (map (\<lambda>l. l [rinfo, json]) (listeners_of ''message'' w))
             (w\<lparr>emitted := emitted w @ [(''message'', [rinfo, json])]\<rparr>)
         \<and> emitted (snd (platform_event rt i (Datagram msg rinfo) w)) =
             emitted w @ [(''message'', [rinfo, json])]"
proof -
  have run: "platform_event rt i (Datagram msg rinfo) w =
           call_listeners (map (\<lambda>l. l [rinfo, json]) (listeners_of ''message'' w))
             (w\<lparr>emitted := emitted w @ [(''message'', [rinfo, json])]\<rparr>)"
    using assms by (simp add: event_defs andThen_done Let_def)
  show ?thesis unfolding run by (simp add: call_listeners_frame)
qed

text \<open>
  The theorem for the datagram \<open>{"a":1}\<close> sent twice to a receiver bound to port 50001:
  for the first datagram after \<open>listening\<close>, and for the second.
\<close>

theorem message_event_for_valid_json_witness:
  "0 < length (sockets receiver_listening)
   \<and> s_state (sockets receiver_listening ! 0) = Bound
   \<and> map snd (filter (\<lambda>l. fst l = ''message'') (s_on (sockets receiver_listening ! 0))) =
       [MessageHandler]
   \<and> json_parse sample_runtime (buffer_toString sample_runtime a1_text) =
       Inr (JObj [(''a'', JNum 1)])
   \<and> platform_event sample_runtime 0 (Datagram a1_text sample_rinfo) receiver_listening =
       (Normal, receiver_after_first)
   \<and> emitted receiver_after_first =
       [(''listening'', [sample_address]),
        (''message'', [sample_rinfo, JObj [(''a'', JNum 1)]])]
   \<and> 0 < length (sockets receiver_after_first)
   \<and> s_state (sockets receiver_after_first ! 0) = Bound
   \<and> map snd (filter (\<lambda>l. fst l = ''message'') (s_on (sockets receiver_after_first ! 0))) =
       [MessageHandler]
   \<and> emitted (snd (platform_event sample_runtime 0 (Datagram a1_text sample_rinfo)
        receiver_after_first)) =
       [(''listening'', [sample_address]),
        (''message'', [sample_rinfo, JObj [(''a'', JNum 1)]]),
        (''message'', [sample_rinfo, JObj [(''a'', JNum 1)]])]"
proof -
  have a: "0 < length (sockets receiver_listening)"
    and b: "s_state (sockets receiver_listening ! 0) = Bound"
    and c: "map snd (filter (\<lambda>l. fst l = ''message'') (s_on (sockets receiver_listening ! 0))) =
       [MessageHandler]"
    and l: "listeners_of ''message'' receiver_listening = [quiet]"
    and e: "emitted receiver_listening = [(''listening'', [sample_address])]"
    by (simp_all add: receiver_listening_value wired_socket_def fresh_def listeners_of_def)
  have a': "0 < length (sockets receiver_after_first)"
    and b': "s_state (sockets receiver_after_first ! 0) = Bound"
    and c': "map snd (filter (\<lambda>l. fst l = ''message'')
               (s_on (sockets receiver_after_first ! 0))) = [MessageHandler]"
    and e': "emitted receiver_after_first =
       [(''listening'', [sample_address]),
        (''message'', [sample_rinfo, JObj [(''a'', JNum 1)]])]"
    by (simp_all add: receiver_after_first_value receiver_listening_value wired_socket_def
        fresh_def)
  have d: "json_parse sample_runtime (buffer_toString sample_runtime a1_text) =
       Inr (JObj [(''a'', JNum 1)])"
    by (simp add: sample_runtime_def)
  note t1 = message_event_for_valid_json[OF a b c d, of sample_rinfo]
  note t2 = message_event_for_valid_json[OF a' b' c' d, of sample_rinfo]
  have r1: "platform_event sample_runtime 0 (Datagram a1_text sample_rinfo) receiver_listening =
       (Normal, receiver_after_first)"
    using t1[THEN conjunct1] by (simp add: l e quiet_def receiver_after_first_value andThen_def)
  have r2: "emitted (snd (platform_event sample_runtime 0 (Datagram a1_text sample_rinfo)
        receiver_after_first)) =
       [(''listening'', [sample_address]),
        (''message'', [sample_rinfo, JObj [(''a'', JNum 1)]]),
        (''message'', [sample_rinfo, JObj [(''a'', JNum 1)]])]"
    using t2[THEN conjunct2] by (simp add: e')
  show ?thesis using a b c d r1 e' a' b' c' r2 by blast
qed

text \<open>
  C8. A datagram whose decoded text \<open>JSON.parse\<close> rejects makes the message handler of a
  bound receiver throw the parse exception: the handler completes by that throw, and the
  Facade is left as it was, so no event is emitted and no listener is called.
\<close>

theorem invalid_json_throws:
  assumes "i < length (sockets w)" and "s_state (sockets w ! i) = Bound"
    and "map snd (filter (\<lambda>l. fst l = ''message'') (s_on (sockets w ! i))) = [MessageHandler]"
    and "json_parse rt (buffer_toString rt msg) = Inl thrown"
  shows "platform_event rt i (Datagram msg rinfo) w = (Throw thrown, w)"
  using assms by (simp add: event_defs andThen_done Let_def)

text \<open>The theorem for the datagram \<open>not json\<close>.\<close>

theorem invalid_json_throws_witness:
  "0 < length (sockets receiver_listening)
   \<and> s_state (sockets receiver_listening ! 0) = Bound
   \<and> map snd (filter (\<lambda>l. fst l = ''message'') (s_on (sockets receiver_listening ! 0))) =
       [MessageHandler]
   \<and> json_parse sample_runtime (buffer_toString sample_runtime junk_text) = Inl SyntaxError
   \<and> platform_event sample_runtime 0 (Datagram junk_text sample_rinfo) receiver_listening =
       (Throw SyntaxError, receiver_listening)
   \<and> emitted receiver_listening = [(''listening'', [sample_address])]"
proof -
  have a: "0 < length (sockets receiver_listening)"
    and b: "s_state (sockets receiver_listening ! 0) = Bound"
    and c: "map snd (filter (\<lambda>l. fst l = ''message'') (s_on (sockets receiver_listening ! 0))) =
       [MessageHandler]"
    and e: "emitted receiver_listening = [(''listening'', [sample_address])]"
    by (simp_all add: receiver_listening_value wired_socket_def fresh_def)
  have d: "json_parse sample_runtime (buffer_toString sample_runtime junk_text) = Inl SyntaxError"
    by (simp add: sample_runtime_def junk_text_def a1_text_def)
  from invalid_json_throws[OF a b c d, of sample_rinfo]
  show ?thesis using a b c d e by blast
qed

text \<open>
  C6. For every call to \<open>setupEventReceiver\<close> while \<open>#server\<close> holds an open socket:
  that socket is closed first (its \<open>close()\<close> returns normally, so no error arises from
  it), then a new \<open>udp4\<close> socket is created, wired with its \<open>error\<close>, \<open>message\<close> and
  \<open>listening\<close> handlers and bound to the given port, in that order of socket calls, and
  \<open>#server\<close> refers to the new socket instead of the old one.
\<close>

theorem rebind_closes_prior_socket:
  assumes "f_server w = Some old" and "old < length (sockets w)"
    and "s_state (sockets w ! old) \<noteq> Closed"
  shows "setupEventReceiver eventPort w =
           (Normal, w\<lparr>f_server := Some (length (sockets w)),
                      sockets := (sockets w)[old := (sockets w ! old)\<lparr>s_state := Closed\<rparr>]
                                   @ [wired_socket eventPort],
                      calls := calls w @ Close old #
                                 wire_calls (length (sockets w)) eventPort\<rparr>)"
  using assms by (rule setupEventReceiver_open)

text \<open>The theorem on the sample instance, rebound to port 50002.\<close>

theorem rebind_closes_prior_socket_witness:
  "f_server (constructed []) = Some 0 \<and> 0 < length (sockets (constructed []))
   \<and> s_state (sockets (constructed []) ! 0) \<noteq> Closed
   \<and> fst (setupEventReceiver 50002 (constructed [])) = Normal
   \<and> f_server (snd (setupEventReceiver 50002 (constructed []))) = Some 1
   \<and> sockets (snd (setupEventReceiver 50002 (constructed []))) =
       [(wired_socket 50001)\<lparr>s_state := Closed\<rparr>, wired_socket 50002]
   \<and> calls (snd (setupEventReceiver 50002 (constructed []))) =
       wire_calls 0 50001 @ Close 0 # wire_calls 1 50002"
proof -
  have a: "f_server (constructed []) = Some 0" and b: "0 < length (sockets (constructed []))"
    and c: "s_state (sockets (constructed []) ! 0) \<noteq> Closed"
    by (simp_all add: constructed_value wired_socket_def)
  note t1 = rebind_closes_prior_socket[OF a b c, of 50002]
  have r1: "fst (setupEventReceiver 50002 (constructed [])) = Normal"
    and r2: "f_server (snd (setupEventReceiver 50002 (constructed []))) = Some 1"
    and r3: "sockets (snd (setupEventReceiver 50002 (constructed []))) =
       [(wired_socket 50001)\<lparr>s_state := Closed\<rparr>, wired_socket 50002]"
    and r4: "calls (snd (setupEventReceiver 50002 (constructed []))) =
       wire_calls 0 50001 @ Close 0 # wire_calls 1 50002"
    unfolding t1 by (simp_all add: constructed_value)
  show ?thesis using a b c r1 r2 r3 r4 by blast
qed

text \<open>
  When every \<open>error\<close> listener of the Facade only returns, and there is at least one, a
  fault of the socket held in \<open>#server\<close> is emitted and that socket is then closed, with
  no other socket call.
\<close>

lemma fault_with_quiet_listeners:
  assumes "f_server w = Some i" "i < length (sockets w)" "s_state (sockets w ! i) \<noteq> Closed"
    "map snd (filter (\<lambda>l. fst l = ''error'') (s_on (sockets w ! i))) = [ErrorHandler]"
    "listeners_of ''error'' w \<noteq> []" "\<forall>l\<in>set (listeners_of ''error'' w). l [e] = []"
  shows "platform_event rt i (Fault e) w =
     (Normal, w\<lparr>sockets := (sockets w)[i := (sockets w ! i)\<lparr>s_state := Closed\<rparr>],
                calls := calls w @ [Close i],
                emitted := emitted w @ [(''error'', [e])]\<rparr>)"
proof -
  let ?w1 = "if s_state (sockets w ! i) = Binding
             then update_socket i (\<lambda>s. s\<lparr>s_state := Unbound\<rparr>) w else w"
  have l: "listeners_of ''error'' ?w1 = listeners_of ''error'' w"
    by (simp add: listeners_of_def update_socket_def)
  have q: "\<forall>l\<in>set (map (\<lambda>l. l [e]) (listeners_of ''error'' ?w1)). l = []"
    using assms(6) unfolding l by simp
  have em: "emit ''error'' [e] ?w1 = (Normal, ?w1\<lparr>emitted := emitted ?w1 @ [(''error'', [e])]\<rparr>)"
    unfolding emit_def using assms(5) call_quiet_listeners[OF q] l by simp
  have "platform_event rt i (Fault e) w = on_error e ?w1"
    using assms(2,3,4) by (simp add: platform_event_def arrives_def run_handler_def
        andThen_done Let_def)
  also have "\<dots> = (Normal, w\<lparr>sockets := (sockets w)[i := (sockets w ! i)\<lparr>s_state := Closed\<rparr>],
                calls := calls w @ [Close i],
                emitted := emitted w @ [(''error'', [e])]\<rparr>)"
    unfolding on_error_def em using assms(1,2,3) by (simp add: node_defs Let_def)
  finally show ?thesis .
qed

text \<open>
  C7 states that on every socket fault the socket is closed. The code on the sample
  instance whose bind fails with \<open>EADDRINUSE\<close>, for three Facades. With no \<open>error\<close>
  listener, \<open>emit\<close> throws the fault out of the handler, \<open>close()\<close> is never called and
  the socket is left unbound. With an \<open>error\<close> listener that throws, the same happens.
  With an \<open>error\<close> listener that rebinds the receiver to port 50002, \<open>close()\<close> is called
  on the socket \<open>#server\<close> holds after \<open>emit\<close> returned, which is the new one: both
  sockets end closed.
\<close>

theorem fault_without_listener_skips_close:
  "listeners_of ''error'' (constructed []) = []
   \<and> fst (platform_event sample_runtime 0 (Fault EADDRINUSE) (constructed [])) =
       Throw EADDRINUSE
   \<and> map s_state (sockets (snd (platform_event sample_runtime 0 (Fault EADDRINUSE)
        (constructed [])))) = [Unbound]
   \<and> emitted (snd (platform_event sample_runtime 0 (Fault EADDRINUSE) (constructed []))) = []
   \<and> calls (snd (platform_event sample_runtime 0 (Fault EADDRINUSE) (constructed []))) =
       wire_calls 0 50001
   \<and> fst (platform_event sample_runtime 0 (Fault EADDRINUSE)
        (constructed [(''error'', thrower)])) = Throw boom
   \<and> map s_state (sockets (snd (platform_event sample_runtime 0 (Fault EADDRINUSE)
        (constructed [(''error'', thrower)])))) = [Unbound]
   \<and> calls (snd (platform_event sample_runtime 0 (Fault EADDRINUSE)
        (constructed [(''error'', thrower)]))) = wire_calls 0 50001
   \<and> fst (platform_event sample_runtime 0 (Fault EADDRINUSE)
        (constructed [(''error'', rebinder)])) = Normal
   \<and> f_server (snd (platform_event sample_runtime 0 (Fault EADDRINUSE)
        (constructed [(''error'', rebinder)]))) = Some 1
   \<and> map s_state (sockets (snd (platform_event sample_runtime 0 (Fault EADDRINUSE)
        (constructed [(''error'', rebinder)])))) = [Closed, Closed]
   \<and> calls (snd (platform_event sample_runtime 0 (Fault EADDRINUSE)
        (constructed [(''error'', rebinder)]))) =
       wire_calls 0 50001 @ Close 0 # wire_calls 1 50002 @ [Close 1]"
  by (simp add: constructed_value event_defs node_defs wired_socket_def wire_calls_def Let_def
      thrower_def rebinder_def run_action_def setupEventReceiver_def)

end
